theory Spec2Isabelle
  imports Complex_Main "HOL-Library.Char_ord" "HOL-Library.List_Lexorder" "HOL-Library.Multiset"
begin

section \<open>Water quality classification (dashboard/app.py)\<close>

text \<open>
  \<^verbatim>\<open>get_water_quality_status(tds, thresholds)\<close> reads the two thresholds out of the
  configuration dictionary and compares the reading against them. A finite float is a
  rational number and Python compares a float with a number exactly, so \<open>tds\<close> and the
  thresholds are reals here. The icon of the returned triple is an emoji; the model gives
  its Unicode code point.
\<close>

record thresholds =
  good :: real
  moderate :: real

definition get_water_quality_status :: "real \<Rightarrow> thresholds \<Rightarrow> string \<times> nat \<times> string" where
  "get_water_quality_status tds_v th =
     (if tds_v < good th then (''Good'', 0x1F7E2, ''#28a745'')
      else if tds_v < moderate th then (''Moderate'', 0x1F7E1, ''#ffc107'')
      else (''Poor'', 0x1F534, ''#dc3545''))"

definition default_thresholds :: thresholds where
  "default_thresholds = \<lparr>good = 300, moderate = 600\<rparr>"

section \<open>Clock values and their ISO text (datetime)\<close>

text \<open>
  \<^verbatim>\<open>datetime.now()\<close> is a naive datetime with microsecond resolution; the model counts
  the microseconds since 0001-01-01T00:00:00 and takes the clock reading as an argument.
  \<^verbatim>\<open>isoformat()\<close> prints \<open>YYYY-MM-DDTHH:MM:SS\<close>, followed by \<open>.ffffff\<close> when the
  microsecond field is not zero; the date is found from the day number the way the
  standard library does it. A datetime lies in the years 1 to 9999 and a timedelta has at
  most 999999999 days in either direction: \<^verbatim>\<open>now - timedelta(...)\<close> raises OverflowError
  when the timedelta or the difference is outside.
\<close>

type_synonym datetime = int

definition digit :: "int \<Rightarrow> char" where
  "digit d = ''0123456789'' ! nat (d mod 10)"

definition pad2 :: "int \<Rightarrow> string" where
  "pad2 n = [digit (n div 10), digit n]"

definition pad4 :: "int \<Rightarrow> string" where
  "pad4 n = [digit (n div 1000), digit (n div 100), digit (n div 10), digit n]"

definition pad6 :: "int \<Rightarrow> string" where
  "pad6 n = [digit (n div 100000), digit (n div 10000), digit (n div 1000),
             digit (n div 100), digit (n div 10), digit n]"

definition days_before_month :: "int list" where
  "days_before_month = [-1, 0, 31, 59, 90, 120, 151, 181, 212, 243, 273, 304, 334]"

definition days_in_month :: "int list" where
  "days_in_month = [-1, 31, 28, 31, 30, 31, 30, 31, 31, 30, 31, 30, 31]"

definition ord2ymd :: "int \<Rightarrow> int \<times> int \<times> int" where
  "ord2ymd ordinal =
     (let n = ordinal - 1;
          n400 = n div 146097; n = n mod 146097;
          n100 = n div 36524; n = n mod 36524;
          n4 = n div 1461; n = n mod 1461;
          n1 = n div 365; n = n mod 365;
          year = n400 * 400 + 1 + n100 * 100 + n4 * 4 + n1
      in if n1 = 4 \<or> n100 = 4 then (year - 1, 12, 31)
         else
           let leapyear = (n1 = 3 \<and> (n4 \<noteq> 24 \<or> n100 = 3));
               month = (n + 50) div 32;
               preceding = days_before_month ! nat month
                             + (if month > 2 \<and> leapyear then 1 else 0)
           in if preceding > n
              then let month' = month - 1;
                       preceding' = preceding - (days_in_month ! nat month'
                                      + (if month' = 2 \<and> leapyear then 1 else 0))
                   in (year, month', n - preceding' + 1)
              else (year, month, n - preceding + 1))"

definition isoformat :: "datetime \<Rightarrow> string" where
  "isoformat t =
     (let (y, m, d) = ord2ymd (t div 86400000000 + 1);
          us = t mod 86400000000;
          hh = us div 3600000000;
          mm = (us div 60000000) mod 60;
          ss = (us div 1000000) mod 60;
          frac = us mod 1000000
      in pad4 y @ ''-'' @ pad2 m @ ''-'' @ pad2 d @ ''T'' @ pad2 hh @ '':'' @ pad2 mm @ '':''
           @ pad2 ss @ (if frac = 0 then [] else ''.'' @ pad6 frac))"

definition minutes_us :: "int \<Rightarrow> int" where
  \<comment> \<open>\<^verbatim>\<open>timedelta(minutes=m)\<close>, in microseconds\<close>
  "minutes_us m = m * 60000000"

definition days_us :: "int \<Rightarrow> int" where
  \<comment> \<open>\<^verbatim>\<open>timedelta(days=d)\<close>, in microseconds\<close>
  "days_us d = d * 86400000000"

datatype error = OverflowError | ValueError | IntegrityError

definition datetime_max :: datetime where
  \<comment> \<open>one microsecond after 9999-12-31T23:59:59.999999\<close>
  "datetime_max = 315537897600000000"

definition timedelta_ok :: "int \<Rightarrow> bool" where
  "timedelta_ok d \<longleftrightarrow> - 999999999 \<le> d div 86400000000 \<and> d div 86400000000 \<le> 999999999"

definition minus_timedelta :: "datetime \<Rightarrow> int \<Rightarrow> error + datetime" where
  \<comment> \<open>\<^verbatim>\<open>t - timedelta(microseconds=d)\<close>\<close>
  "minus_timedelta t d =
     (if timedelta_ok d \<and> 0 \<le> t - d \<and> t - d < datetime_max then Inr (t - d)
      else Inl OverflowError)"

section \<open>The readings table (utils/storage.py)\<close>

text \<open>
  A Python float is a finite number, an infinity or NaN. SQLite stores an infinity in a
  \<open>REAL\<close> column and turns NaN into \<open>NULL\<close>.
\<close>

datatype pyfloat = Finite real | PosInf | NegInf | NaN

text \<open>
  One row of the table \<open>readings\<close>. The column \<open>id\<close> is \<open>rid\<close> here. The columns
  \<open>device_id\<close>, \<open>tds\<close>, \<open>timestamp\<close> and \<open>created_at\<close> are \<open>NOT NULL\<close>; \<open>device_ip\<close>
  and \<open>voltage\<close> may be null. The table stores \<open>timestamp\<close> as \<open>TEXT\<close>, and SQLite
  compares text byte by byte, which is the lexicographic order of \<open>string\<close>. The row
  type is polymorphic in the timestamp, because a DataFrame that went through
  \<^verbatim>\<open>pd.to_datetime\<close> holds parsed values in that column.
\<close>

record 't reading =
  rid :: int
  device_id :: string
  device_ip :: "string option"
  tds :: pyfloat
  voltage :: "real option"
  timestamp :: 't
  created_at :: string


text \<open>
  The database: the rows of the table in rowid order, and the counter that
  \<open>AUTOINCREMENT\<close> keeps in \<open>sqlite_sequence\<close> (the largest id ever given out). An
  insert gives the new row the id after that counter, so an id is never used twice, also
  after rows were deleted.
\<close>

record database =
  readings :: "string reading list"
  seq :: int

definition init_database :: database where
  \<comment> \<open>the state after \<^verbatim>\<open>init_database()\<close> on a fresh file\<close>
  "init_database = \<lparr>readings = [], seq = 0\<rparr>"

text \<open>
  \<open>append_reading\<close> checks nothing itself. The \<open>INSERT\<close> fails with IntegrityError, and
  nothing is stored, when \<open>device_id\<close> or \<open>tds\<close> is \<open>None\<close> or \<open>tds\<close> is NaN, by the
  \<open>NOT NULL\<close> constraints; an empty device id is a text like any other. The arguments
  \<open>now\<close> and \<open>now'\<close> are the two readings of the clock.
\<close>

definition append_reading ::
  "datetime \<Rightarrow> datetime \<Rightarrow> string option \<Rightarrow> pyfloat option \<Rightarrow> real option \<Rightarrow> string option
     \<Rightarrow> string option \<Rightarrow> database \<Rightarrow> error + database" where
  "append_reading now now' dev tds_v volt ts ip db =
     (let ts' = (case ts of None \<Rightarrow> isoformat now | Some t \<Rightarrow> t);
          created = isoformat now';
          new_id = seq db + 1
      in case dev of
           None \<Rightarrow> Inl IntegrityError
         | Some d \<Rightarrow>
             (case tds_v of
                None \<Rightarrow> Inl IntegrityError
              | Some x \<Rightarrow>
                  if x = NaN then Inl IntegrityError
                  else Inr \<lparr>readings = readings db @
                             [\<lparr>rid = new_id, device_id = d, device_ip = ip, tds = x,
                               voltage = volt, timestamp = ts', created_at = created\<rparr>],
                           seq = new_id\<rparr>))"

subsection \<open>What SQLite does with the queries\<close>

definition order_by_desc :: "('a \<Rightarrow> 'k::linorder) \<Rightarrow> 'a list \<Rightarrow> 'a list" where
  \<comment> \<open>\<open>ORDER BY key DESC\<close>: rows with equal keys stay in the order they were visited\<close>
  "order_by_desc key xs = rev (sort_key key (rev xs))"

definition sql_limit :: "int \<Rightarrow> 'a list \<Rightarrow> 'a list" where
  \<comment> \<open>\<open>LIMIT n\<close>: a negative \<open>n\<close> is no limit\<close>
  "sql_limit n xs = (if n < 0 then xs else take (nat n) xs)"

subsection \<open>What pandas does with the result\<close>

text \<open>
  \<^verbatim>\<open>pd.to_datetime\<close> and \<^verbatim>\<open>DataFrame.sort_values\<close> are library functions; the model
  takes them as arguments. \<open>to_datetime\<close> works on a whole column and raises ValueError
  (here \<open>None\<close>) when it cannot parse a text of the column or the texts are not of one
  shape; \<open>parses_columns\<close> says that it returns one value for each text. \<open>sort_values\<close>
  is called with its default sort kind, quicksort, which sorts by the key and is not one
  of the stable kinds, so it promises nothing about rows with equal keys:
  \<open>sorts_by_key\<close> is that contract.
\<close>

record 'd pandas =
  to_datetime :: "string list \<Rightarrow> 'd list option"
  sort_values :: "('d reading \<Rightarrow> 'd) \<Rightarrow> 'd reading list \<Rightarrow> 'd reading list"

definition sorts_by_key :: "('d::linorder) pandas \<Rightarrow> bool" where
  "sorts_by_key P \<longleftrightarrow>
     (\<forall>key xs. mset (sort_values P key xs) = mset xs \<and> sorted (map key (sort_values P key xs)))"

definition parses_columns :: "'d pandas \<Rightarrow> bool" where
  "parses_columns P \<longleftrightarrow> (\<forall>col ds. to_datetime P col = Some ds \<longrightarrow> length ds = length col)"

definition set_timestamp :: "string reading \<Rightarrow> 'd \<Rightarrow> 'd reading" where
  \<comment> \<open>\<^verbatim>\<open>df['timestamp'] = pd.to_datetime(df['timestamp'])\<close>, on one row\<close>
  "set_timestamp r d =
     \<lparr>rid = rid r, device_id = device_id r, device_ip = device_ip r, tds = tds r,
      voltage = voltage r, timestamp = d, created_at = created_at r\<rparr>"

subsection \<open>Range query\<close>

definition window_cutoff :: "datetime \<Rightarrow> int option \<Rightarrow> error + string option" where
  \<comment> \<open>\<open>cutoff_time\<close>, computed when \<^verbatim>\<open>if minutes:\<close> holds\<close>
  "window_cutoff now minutes =
     (case minutes of
        None \<Rightarrow> Inr None
      | Some m \<Rightarrow>
          if m \<noteq> 0
          then (case minus_timedelta now (minutes_us m) of
                  Inl e \<Rightarrow> Inl e
                | Inr t \<Rightarrow> Inr (Some (isoformat t)))
          else Inr None)"

definition range_conditions :: "string option \<Rightarrow> string option \<Rightarrow> (string reading \<Rightarrow> bool) list" where
  \<comment> \<open>the list \<open>conditions\<close>; \<^verbatim>\<open>if device_id:\<close> tests truthiness\<close>
  "range_conditions cutoff dev =
     (case cutoff of None \<Rightarrow> [] | Some c \<Rightarrow> [\<lambda>r. c \<le> timestamp r])
     @
     (case dev of
        None \<Rightarrow> []
      | Some d \<Rightarrow> if d \<noteq> [] then [\<lambda>r. device_id r = d] else [])"

definition matching :: "string option \<Rightarrow> string option \<Rightarrow> database \<Rightarrow> string reading list" where
  \<comment> \<open>the rows that pass the \<open>WHERE\<close> clause (all rows when there is none)\<close>
  "matching cutoff dev db =
     filter (\<lambda>r. list_all (\<lambda>c. c r) (range_conditions cutoff dev)) (readings db)"

definition range_query :: "string option \<Rightarrow> int \<Rightarrow> string option \<Rightarrow> database \<Rightarrow> string reading list" where
  \<comment> \<open>\<open>SELECT ... FROM readings [WHERE ...] ORDER BY timestamp DESC LIMIT ?\<close>\<close>
  "range_query cutoff limit dev db =
     sql_limit limit (order_by_desc timestamp (matching cutoff dev db))"

definition last_n_readings ::
  "'d pandas \<Rightarrow> datetime \<Rightarrow> int option \<Rightarrow> int \<Rightarrow> string option \<Rightarrow> database
     \<Rightarrow> error + 'd reading list" where
  "last_n_readings P now minutes limit dev db =
     (case window_cutoff now minutes of
        Inl e \<Rightarrow> Inl e
      | Inr cutoff \<Rightarrow>
          let df = range_query cutoff limit dev db
          in if df \<noteq> []
             then (case to_datetime P (map timestamp df) of
                     None \<Rightarrow> Inl ValueError
                   | Some ds \<Rightarrow> Inr (sort_values P timestamp (map2 set_timestamp df ds)))
             else Inr [])"

subsection \<open>Latest reading of each device\<close>

text \<open>
  \<open>SELECT device_id, device_ip, tds, voltage, timestamp, created_at, MAX(timestamp) as
  last_seen FROM readings GROUP BY device_id ORDER BY last_seen DESC\<close>. The columns beside
  \<open>MAX(timestamp)\<close> are bare columns: SQLite takes them from the row that set the
  maximum, and a later row replaces it only when its timestamp is strictly greater. The
  rows of a group are visited in rowid order here; through the index on
  \<open>(device_id, timestamp DESC)\<close> they are visited by descending timestamp and, within one
  timestamp, in rowid order, and the row that sets the maximum is the same. Groups come
  out in the order of their key before \<open>ORDER BY\<close> sorts them.
\<close>

record 't latest =
  l_device_id :: string
  l_device_ip :: "string option"
  l_tds :: pyfloat
  l_voltage :: "real option"
  l_timestamp :: 't
  l_created_at :: string
  last_seen :: 't

definition max_step :: "string reading \<Rightarrow> string reading \<Rightarrow> string reading" where
  \<comment> \<open>one step of the aggregate \<open>MAX\<close>: the row held so far, the row visited\<close>
  "max_step best x = (if timestamp best < timestamp x then x else best)"

definition max_row :: "string reading \<Rightarrow> string reading list \<Rightarrow> string reading" where
  "max_row r rs = foldl max_step r rs"

definition latest_row :: "string reading \<Rightarrow> string latest" where
  \<comment> \<open>the result row of a group, from the row that holds its maximum\<close>
  "latest_row b =
     \<lparr>l_device_id = device_id b, l_device_ip = device_ip b, l_tds = tds b,
      l_voltage = voltage b, l_timestamp = timestamp b, l_created_at = created_at b,
      last_seen = timestamp b\<rparr>"

definition latest_of_group :: "string reading list \<Rightarrow> string latest list" where
  "latest_of_group g = (case g of [] \<Rightarrow> [] | r # rs \<Rightarrow> [latest_row (max_row r rs)])"

definition group_by_device :: "string reading list \<Rightarrow> string reading list list" where
  "group_by_device rows =
     map (\<lambda>d. filter (\<lambda>r. device_id r = d) rows) (sort (remdups (map device_id rows)))"

definition latest_query :: "database \<Rightarrow> string latest list" where
  "latest_query db =
     order_by_desc last_seen (concat (map latest_of_group (group_by_device (readings db))))"

definition set_latest :: "string latest \<Rightarrow> 'd \<Rightarrow> 'd \<Rightarrow> 'd latest" where
  \<comment> \<open>the two columns \<open>timestamp\<close> and \<open>last_seen\<close> replaced by their parsed values\<close>
  "set_latest l t s =
     \<lparr>l_device_id = l_device_id l, l_device_ip = l_device_ip l, l_tds = l_tds l,
      l_voltage = l_voltage l, l_timestamp = t, l_created_at = l_created_at l, last_seen = s\<rparr>"

definition latest_columns ::
  "'t latest \<Rightarrow> string \<times> string option \<times> pyfloat \<times> real option \<times> string" where
  \<comment> \<open>the columns of a result row that \<^verbatim>\<open>pd.to_datetime\<close> does not replace\<close>
  "latest_columns l = (l_device_id l, l_device_ip l, l_tds l, l_voltage l, l_created_at l)"

definition get_latest_by_device :: "'d pandas \<Rightarrow> database \<Rightarrow> error + 'd latest list" where
  "get_latest_by_device P db =
     (let df = latest_query db
      in if df \<noteq> []
         then (case to_datetime P (map l_timestamp df) of
                 None \<Rightarrow> Inl ValueError
               | Some ts \<Rightarrow>
                   (case to_datetime P (map last_seen df) of
                      None \<Rightarrow> Inl ValueError
                    | Some ls \<Rightarrow> Inr (map (\<lambda>(l, t, s). set_latest l t s) (zip df (zip ts ls)))))
         else Inr [])"

subsection \<open>Export, pruning, statistics\<close>

text \<open>
  \<open>export_csv\<close> writes a file; the state it works on is the database together with the
  files written so far, each file being the rows of the DataFrame it was written from.
\<close>

record 'd world =
  store :: database
  files :: "string \<rightharpoonup> 'd reading list"

definition window_minutes :: "int option \<Rightarrow> int option" where
  \<comment> \<open>\<^verbatim>\<open>days * 24 * 60 if days else None\<close>\<close>
  "window_minutes days =
     (case days of None \<Rightarrow> None | Some d \<Rightarrow> if d \<noteq> 0 then Some (d * 24 * 60) else None)"

definition export_csv ::
  "'d pandas \<Rightarrow> datetime \<Rightarrow> string \<Rightarrow> string option \<Rightarrow> int option \<Rightarrow> 'd world
     \<Rightarrow> error + ('d world \<times> string option)" where
  "export_csv P now path dev days w =
     (let minutes = window_minutes days
      in case last_n_readings P now minutes 100000 dev (store w) of
           Inl e \<Rightarrow> Inl e
         | Inr df \<Rightarrow>
             if df \<noteq> []
             then Inr (w\<lparr>files := (files w)(path \<mapsto> df)\<rparr>, Some path)
             else Inr (w, None))"

definition clear_old_readings :: "datetime \<Rightarrow> int \<Rightarrow> database \<Rightarrow> error + (database \<times> int)" where
  \<comment> \<open>\<open>DELETE FROM readings WHERE timestamp < ?\<close>; the result is \<open>cursor.rowcount\<close>\<close>
  "clear_old_readings now days db =
     (case minus_timedelta now (days_us days) of
        Inl e \<Rightarrow> Inl e
      | Inr t \<Rightarrow>
          let cutoff_time = isoformat t;
              deleted = int (length (filter (\<lambda>r. timestamp r < cutoff_time) (readings db)))
          in Inr (db\<lparr>readings := filter (\<lambda>r. \<not> timestamp r < cutoff_time) (readings db)\<rparr>,
                  deleted))"

record stats =
  total_readings :: int
  total_devices :: int
  earliest :: "string option"
  latest :: "string option"


section \<open>The HTTP endpoint (ingest/http_server.py)\<close>

text \<open>
  The JSON body of \<open>POST /api/tds\<close>, field by field. A field that is absent or \<open>null\<close> is
  \<open>None\<close> after \<^verbatim>\<open>payload.get\<close>. The field \<open>tds\<close> is the one the handler inspects: it
  may be a number (the parser of the body also reads \<open>NaN\<close> and \<open>Infinity\<close>), a string
  (which \<^verbatim>\<open>float\<close> parses, possibly to an infinity or NaN, or rejects with ValueError) or
  a value \<^verbatim>\<open>float\<close> rejects with another exception (an array, an object), which the
  handler's last \<^verbatim>\<open>except\<close> turns into status 500. The other fields are taken at the
  types the handler's docstring gives them. \<^verbatim>\<open>float\<close> on a string is a library function
  and an argument of the model; \<open>None\<close> is its ValueError.

  An exception of \<open>append_reading\<close> (NaN) ends in status 500 with nothing stored. After
  the row is stored, the response is rendered as JSON, which raises for an infinity: the
  answer is status 500 and the row stays. Of a response the model keeps the status code
  and, for an error, the detail text (for status 500 its fixed beginning).
\<close>

datatype tds_field = TdsMissing | TdsNumber pyfloat | TdsText string | TdsOther

record payload =
  p_device_id :: "string option"
  p_device_ip :: "string option"
  p_tds :: tds_field
  p_voltage :: "real option"
  p_timestamp :: "string option"

datatype response = JSONResponse int | HTTPException int string

definition store_and_answer ::
  "datetime \<Rightarrow> datetime \<Rightarrow> string \<Rightarrow> pyfloat \<Rightarrow> real option \<Rightarrow> string option \<Rightarrow> string
     \<Rightarrow> database \<Rightarrow> response \<times> database" where
  \<comment> \<open>the call of \<open>append_reading\<close> and the response after it\<close>
  "store_and_answer now now' dev x volt ts ip db =
     (case append_reading now now' (Some dev) (Some x) volt ts (Some ip) db of
        Inl e \<Rightarrow> (HTTPException 500 ''Internal server error'', db)
      | Inr db' \<Rightarrow>
          if x = PosInf \<or> x = NegInf then (HTTPException 500 ''Internal server error'', db')
          else (JSONResponse 200, db'))"

definition receive_tds ::
  "(string \<Rightarrow> pyfloat option) \<Rightarrow> string \<Rightarrow> datetime \<Rightarrow> datetime \<Rightarrow> payload \<Rightarrow> database
     \<Rightarrow> response \<times> database" where
  "receive_tds float_of_text client_host now now' p db =
     (let ip = (case p_device_ip p of
                  None \<Rightarrow> client_host
                | Some a \<Rightarrow> if a \<noteq> [] then a else client_host)
      in case p_device_id p of
           None \<Rightarrow> (HTTPException 400 ''Missing device_id'', db)
         | Some dev \<Rightarrow>
             if dev = [] then (HTTPException 400 ''Missing device_id'', db)
             else
               (case p_tds p of
                  TdsMissing \<Rightarrow> (HTTPException 400 ''Missing tds value'', db)
                | TdsOther \<Rightarrow> (HTTPException 500 ''Internal server error'', db)
                | TdsNumber x \<Rightarrow>
                    store_and_answer now now' dev x (p_voltage p) (p_timestamp p) ip db
                | TdsText s \<Rightarrow>
                    (case float_of_text s of
                       None \<Rightarrow> (HTTPException 400 ''Invalid tds value (must be numeric)'', db)
                     | Some x \<Rightarrow>
                         store_and_answer now now' dev x (p_voltage p) (p_timestamp p) ip db)))"

subsection \<open>Well-formed states\<close>

text \<open>
  What every state reached from \<open>init_database\<close> by appending and pruning satisfies: the
  ids grow along the table and none exceeds the counter.
\<close>

definition wf_db :: "database \<Rightarrow> bool" where
  "wf_db db \<longleftrightarrow> sorted_wrt (<) (map rid (readings db)) \<and> list_all (\<lambda>r. rid r \<le> seq db) (readings db)"

section \<open>The instant a timestamp text denotes\<close>

text \<open>
  The instant, in microseconds since 0001-01-01T00:00:00, that a timestamp of the form
  \<open>YYYY-MM-DDTHH:MM:SS\<close> or \<open>YYYY-MM-DD HH:MM:SS\<close>, with or without six digits of
  fraction, stands for; \<open>None\<close> for any other text. It gives the words "before", "newest"
  and "within the last minutes" of the specification a meaning on stored texts, and it is
  the parser of the two instances of the library below: \<open>to_datetime_iso\<close> takes a column
  of such texts that all have the shape of the first one and rejects any other column.
  The examples use it on columns of texts of these forms and on a text that names no
  time, where \<^verbatim>\<open>pd.to_datetime\<close> does the same; the further forms that
  \<^verbatim>\<open>pd.to_datetime\<close> reads (a date alone, say) appear in no example.
\<close>

definition digit_value :: "char \<Rightarrow> int option" where
  "digit_value c =
     map_of [(CHR ''0'', 0), (CHR ''1'', 1), (CHR ''2'', 2), (CHR ''3'', 3), (CHR ''4'', 4),
             (CHR ''5'', 5), (CHR ''6'', 6), (CHR ''7'', 7), (CHR ''8'', 8), (CHR ''9'', 9)] c"

definition number :: "string \<Rightarrow> int option" where
  "number s =
     fold (\<lambda>c acc. case acc of
                      None \<Rightarrow> None
                    | Some n \<Rightarrow> (case digit_value c of None \<Rightarrow> None | Some d \<Rightarrow> Some (n * 10 + d)))
       s (Some 0)"

definition is_leap :: "int \<Rightarrow> bool" where
  "is_leap y \<longleftrightarrow> y mod 4 = 0 \<and> (y mod 100 \<noteq> 0 \<or> y mod 400 = 0)"

definition ymd2ord :: "int \<Rightarrow> int \<Rightarrow> int \<Rightarrow> int" where
  "ymd2ord y m d =
     (y - 1) * 365 + (y - 1) div 4 - (y - 1) div 100 + (y - 1) div 400
       + days_before_month ! nat m + (if m > 2 \<and> is_leap y then 1 else 0) + d"

definition fields_instant :: "int \<Rightarrow> int \<Rightarrow> int \<Rightarrow> int \<Rightarrow> int \<Rightarrow> int \<Rightarrow> int \<Rightarrow> datetime option" where
  "fields_instant y m d hh mm ss us =
     (if 1 \<le> y \<and> 1 \<le> m \<and> m \<le> 12 \<and> 1 \<le> d
         \<and> d \<le> days_in_month ! nat m + (if m = 2 \<and> is_leap y then 1 else 0)
         \<and> hh < 24 \<and> mm < 60 \<and> ss < 60
      then Some ((ymd2ord y m d - 1) * 86400000000 + hh * 3600000000 + mm * 60000000
                   + ss * 1000000 + us)
      else None)"

definition instant_of :: "string \<Rightarrow> datetime option" where
  "instant_of s =
     (if (length s = 19 \<or> length s = 26 \<and> s ! 19 = CHR ''.'')
         \<and> s ! 4 = CHR ''-'' \<and> s ! 7 = CHR ''-'' \<and> (s ! 10 = CHR ''T'' \<or> s ! 10 = CHR '' '')
         \<and> s ! 13 = CHR '':'' \<and> s ! 16 = CHR '':''
      then
        (case (number (take 4 s), number (take 2 (drop 5 s)), number (take 2 (drop 8 s)),
               number (take 2 (drop 11 s)), number (take 2 (drop 14 s)),
               number (take 2 (drop 17 s)), number (drop 20 s)) of
           (Some y, Some m, Some d, Some hh, Some mm, Some ss, Some us) \<Rightarrow>
             fields_instant y m d hh mm ss us
         | _ \<Rightarrow> None)
      else None)"

definition shape :: "string \<Rightarrow> nat \<times> string" where
  \<comment> \<open>the length of a timestamp text and its separator\<close>
  "shape s = (length s, take 1 (drop 10 s))"

definition to_datetime_iso :: "string list \<Rightarrow> datetime list option" where
  "to_datetime_iso col =
     (case col of
        [] \<Rightarrow> Some []
      | s # rest \<Rightarrow>
          if list_all (\<lambda>t. shape t = shape s) rest then those (map instant_of col) else None)"

section \<open>The window as the specification words it\<close>


section \<open>The default sort kind: quicksort of an index array (numpy)\<close>

text \<open>
  \<^verbatim>\<open>DataFrame.sort_values\<close> with one sort column takes the rows in the order of
  \<^verbatim>\<open>argsort(kind='quicksort')\<close> of that column. For a column of datetimes this is
  numpy's generic indirect quicksort: it sorts the array \<open>tosort\<close> of row numbers,
  starting from \<open>0, 1, ...\<close>, by the values \<open>v\<close> they point to. A range of more than
  17 entries is partitioned around the median of its first, middle and last entry, a
  shorter one is sorted by insertion, and a range popped from the stack after
  \<open>2 * msb(n)\<close> partitions is sorted by heapsort. The recursion on the two parts stands
  for the stack of ranges: the part that the loop continues with comes first, the part it
  pushed follows. The bound \<open>hi\<close> of \<open>scan_up\<close>, the bound \<open>lo\<close> of \<open>scan_down\<close> and
  the tests on \<open>p_i\<close> are never what stops a loop: the median step leaves an entry that
  stops each scan inside the range.
\<close>

definition swap :: "nat list \<Rightarrow> nat \<Rightarrow> nat \<Rightarrow> nat list" where
  "swap a i j = a[i := a ! j, j := a ! i]"

function scan_up :: "'k::linorder list \<Rightarrow> nat list \<Rightarrow> 'k \<Rightarrow> nat \<Rightarrow> nat \<Rightarrow> nat" where
  "scan_up v a vp hi i = (if i < hi \<and> v ! (a ! i) < vp then scan_up v a vp hi (Suc i) else i)"
  by pat_completeness auto
termination
  by (relation "measure (\<lambda>(v, a, vp, hi, i). hi - i)") auto

declare scan_up.simps [simp del]

function scan_down :: "'k::linorder list \<Rightarrow> nat list \<Rightarrow> 'k \<Rightarrow> nat \<Rightarrow> nat \<Rightarrow> nat" where
  "scan_down v a vp lo j = (if lo < j \<and> vp < v ! (a ! j) then scan_down v a vp lo (j - 1) else j)"
  by pat_completeness auto
termination
  by (relation "measure (\<lambda>(v, a, vp, lo, j). j)") auto

declare scan_down.simps [simp del]

function hoare_loop ::
  "'k::linorder list \<Rightarrow> nat list \<Rightarrow> 'k \<Rightarrow> nat \<Rightarrow> nat \<Rightarrow> nat \<Rightarrow> nat \<Rightarrow> nat list \<times> nat" where
  "hoare_loop v a vp pl pr p_i p_j =
     (let p_i' = scan_up v a vp pr (Suc p_i);
          p_j' = scan_down v a vp pl (p_j - 1)
      in if p_j' \<le> p_i' \<or> p_i' \<le> p_i \<or> p_j \<le> p_j' then (a, p_i')
         else hoare_loop v (swap a p_i' p_j') vp pl pr p_i' p_j')"
  by pat_completeness auto
termination
  by (relation "measure (\<lambda>(v, a, vp, pl, pr, p_i, p_j). p_j - p_i)") auto

declare hoare_loop.simps [simp del]

definition hoare_partition :: "'k::linorder list \<Rightarrow> nat list \<Rightarrow> nat \<Rightarrow> nat \<Rightarrow> nat list \<times> nat" where
  "hoare_partition v a pl pr =
     (let pm = pl + (pr - pl) div 2;
          a = (if v ! (a ! pm) < v ! (a ! pl) then swap a pm pl else a);
          a = (if v ! (a ! pr) < v ! (a ! pm) then swap a pr pm else a);
          a = (if v ! (a ! pm) < v ! (a ! pl) then swap a pm pl else a);
          vp = v ! (a ! pm);
          a = swap a pm (pr - 1);
          (a, p_i) = hoare_loop v a vp pl pr pl (pr - 1)
      in (swap a p_i (pr - 1), p_i))"

fun shift_right :: "'k::linorder list \<Rightarrow> nat list \<Rightarrow> nat \<Rightarrow> 'k \<Rightarrow> nat \<Rightarrow> nat list \<times> nat" where
  "shift_right v a pl vp 0 = (a, 0)"
| "shift_right v a pl vp (Suc pk) =
     (if pl < Suc pk \<and> vp < v ! (a ! pk) then shift_right v (a[Suc pk := a ! pk]) pl vp pk
      else (a, Suc pk))"

definition insertion_sort :: "'k::linorder list \<Rightarrow> nat list \<Rightarrow> nat \<Rightarrow> nat \<Rightarrow> nat list" where
  "insertion_sort v a pl pr =
     fold (\<lambda>p_i a. let vi = a ! p_i;
                      (a, p_j) = shift_right v a pl (v ! vi) p_i
                  in a[p_j := vi])
       [Suc pl..<Suc pr] a"

definition hget :: "nat list \<Rightarrow> nat \<Rightarrow> nat \<Rightarrow> nat" where
  \<comment> \<open>entry \<open>p\<close> of the range that starts at \<open>pl\<close>, counted from 1\<close>
  "hget a pl p = a ! (pl + p - 1)"

definition hset :: "nat list \<Rightarrow> nat \<Rightarrow> nat \<Rightarrow> nat \<Rightarrow> nat list" where
  "hset a pl p x = a[pl + p - 1 := x]"

function sift ::
  "'k::linorder list \<Rightarrow> nat list \<Rightarrow> nat \<Rightarrow> nat \<Rightarrow> nat \<Rightarrow> nat \<Rightarrow> nat \<Rightarrow> nat list" where
  "sift v a pl n tmp i j =
     (if 0 < j \<and> j \<le> n
      then (if v ! tmp
                 < v ! (hget a pl (if j < n \<and> v ! (hget a pl j) < v ! (hget a pl (j + 1))
                                   then j + 1 else j))
            then sift v
                   (hset a pl i
                      (hget a pl (if j < n \<and> v ! (hget a pl j) < v ! (hget a pl (j + 1))
                                  then j + 1 else j)))
                   pl n tmp
                   (if j < n \<and> v ! (hget a pl j) < v ! (hget a pl (j + 1)) then j + 1 else j)
                   (2 * (if j < n \<and> v ! (hget a pl j) < v ! (hget a pl (j + 1)) then j + 1 else j))
            else hset a pl i tmp)
      else hset a pl i tmp)"
  by pat_completeness auto
termination
  by (relation "measure (\<lambda>(v, a, pl, n, tmp, i, j). Suc n - j)") auto

declare sift.simps [simp del]

definition aheapsort :: "'k::linorder list \<Rightarrow> nat list \<Rightarrow> nat \<Rightarrow> nat \<Rightarrow> nat list" where
  "aheapsort v a pl pr =
     (let n = Suc pr - pl;
          a = fold (\<lambda>l a. sift v a pl n (hget a pl l) l (2 * l)) (rev [1..<Suc (n div 2)]) a
      in fold (\<lambda>m a. sift v (hset a pl m (hget a pl 1)) pl (m - 1) (hget a pl m) 1 2)
           (rev [2..<Suc n]) a)"

function aquicksort ::
  "'k::linorder list \<Rightarrow> nat list \<Rightarrow> nat \<Rightarrow> nat \<Rightarrow> int \<Rightarrow> bool \<Rightarrow> nat list" where
  "aquicksort v a pl pr cdepth popped =
     (if popped \<and> cdepth < 0 then aheapsort v a pl pr
      else if 16 < pr - pl
      then (case hoare_partition v a pl pr of
              (a', p_i) \<Rightarrow>
                if pl < p_i \<and> p_i < pr
                then (if p_i - pl < pr - p_i
                      then aquicksort v (aquicksort v a' pl (p_i - 1) (cdepth - 1) False)
                             (p_i + 1) pr (cdepth - 1) True
                      else aquicksort v (aquicksort v a' (p_i + 1) pr (cdepth - 1) False)
                             pl (p_i - 1) (cdepth - 1) True)
                else a')
      else insertion_sort v a pl pr)"
  by pat_completeness auto
termination
  by (relation "measure (\<lambda>(v, a, pl, pr, cdepth, popped). pr - pl)") auto

declare aquicksort.simps [simp del]

fun npy_get_msb :: "nat \<Rightarrow> nat" where
  "npy_get_msb n = (if n < 2 then 0 else Suc (npy_get_msb (n div 2)))"

declare npy_get_msb.simps [simp del]

definition argsort :: "'k::linorder list \<Rightarrow> nat list" where
  "argsort v =
     (if v = [] then []
      else aquicksort v [0..<length v] 0 (length v - 1) (2 * int (npy_get_msb (length v))) True)"

definition quicksort_values :: "('a \<Rightarrow> 'k::linorder) \<Rightarrow> 'a list \<Rightarrow> 'a list" where
  "quicksort_values key xs = map (\<lambda>i. xs ! i) (argsort (map key xs))"

section \<open>Two instances of the library, and example states\<close>

text \<open>
  \<open>pandas_quicksort\<close> sorts as the default kind does; \<open>pandas_stable\<close> sorts by insertion,
  which is what that quicksort does to a frame of at most 17 rows. Both parse with
  \<open>to_datetime_iso\<close>. The clock reading \<open>now0\<close> is 2025-06-01T12:00:00, and the small
  stores are used where a statement is evaluated.
\<close>

definition pandas_stable :: "datetime pandas" where
  "pandas_stable = \<lparr>to_datetime = to_datetime_iso, sort_values = sort_key\<rparr>"

definition pandas_quicksort :: "datetime pandas" where
  "pandas_quicksort = \<lparr>to_datetime = to_datetime_iso, sort_values = quicksort_values\<rparr>"

definition now0 :: datetime where
  "now0 = 63884376000000000"

definition stored :: "int \<Rightarrow> string \<Rightarrow> real \<Rightarrow> string \<Rightarrow> string reading" where
  \<comment> \<open>a row as \<open>append_reading\<close> at \<open>now0\<close> stores it, given its id, device, tds and timestamp\<close>
  "stored i dev v ts =
     \<lparr>rid = i, device_id = dev, device_ip = None, tds = Finite v, voltage = None,
      timestamp = ts, created_at = ''2025-06-01T12:00:00''\<rparr>"

definition db_d1 :: database where
  \<comment> \<open>one reading of \<open>d1\<close>, stamped by the clock\<close>
  "db_d1 = \<lparr>readings = [stored 1 ''d1'' 250.0 ''2025-06-01T12:00:00''], seq = 1\<rparr>"






definition db_two_devices :: database where
  \<comment> \<open>two readings of \<open>d1\<close>, the second one later, and a reading of \<open>d2\<close>\<close>
  "db_two_devices =
     \<lparr>readings = [stored 1 ''d1'' 110 ''2025-06-01T11:00:00'',
                  stored 2 ''d1'' 120 ''2025-06-01T11:50:00'',
                  stored 3 ''d2'' 300 ''2025-06-01T11:30:00''],
      seq = 3\<rparr>"

definition db_tie :: database where
  \<comment> \<open>two readings of \<open>d1\<close> with one timestamp\<close>
  "db_tie =
     \<lparr>readings = [stored 1 ''d1'' 100 ''2025-06-01T11:00:00'',
                  stored 2 ''d1'' 200 ''2025-06-01T11:00:00''],
      seq = 2\<rparr>"

definition db_bad_stamp :: database where
  \<comment> \<open>a reading whose timestamp is not a time\<close>
  "db_bad_stamp = \<lparr>readings = [stored 1 ''d1'' 110 ''soon''], seq = 1\<rparr>"


definition float_of_text0 :: "string \<Rightarrow> pyfloat option" where
  \<comment> \<open>\<^verbatim>\<open>float\<close> on the texts of the examples\<close>
  "float_of_text0 s =
     (if s = ''345.7'' then Some (Finite 345.7)
      else if s = ''nan'' then Some NaN
      else if s = ''inf'' then Some PosInf
      else None)"

definition payload0 :: payload where
  "payload0 = \<lparr>p_device_id = Some ''esp32-01'', p_device_ip = None, p_tds = TdsText ''345.7'',
                p_voltage = Some 3.3, p_timestamp = None\<rparr>"



section \<open>Facts about the queries\<close>

lemma mset_order_by_desc: "mset (order_by_desc key xs) = mset xs"
  by (simp add: order_by_desc_def)

lemma set_order_by_desc: "set (order_by_desc key xs) = set xs"
  by (simp add: order_by_desc_def)


lemma descending_order_by_desc: "sorted (rev (map key (order_by_desc key xs)))"
  by (simp add: order_by_desc_def rev_map)


lemma set_sql_limit: "set (sql_limit n xs) \<subseteq> set xs"
  by (auto simp: sql_limit_def dest: in_set_takeD)



lemma sorts_by_key_stable: "sorts_by_key pandas_stable"
  by (simp add: sorts_by_key_def pandas_stable_def)

lemma those_length: "those xs = Some ys \<Longrightarrow> length ys = length xs"
  by (induction xs arbitrary: ys) (auto split: option.splits)

lemma to_datetime_iso_length:
  assumes "to_datetime_iso col = Some ds"
  shows "length ds = length col"
proof (cases col)
  case Nil
  then show ?thesis using assms by (simp add: to_datetime_iso_def)
next
  case (Cons s rest)
  then have "those (map instant_of col) = Some ds"
    using assms by (simp add: to_datetime_iso_def split: if_splits)
  then show ?thesis using those_length by fastforce
qed

lemma parses_columns_stable: "parses_columns pandas_stable"
  by (simp add: parses_columns_def pandas_stable_def to_datetime_iso_length)

lemma sort_values_mset: "sorts_by_key P \<Longrightarrow> mset (sort_values P key xs) = mset xs"
  by (simp add: sorts_by_key_def)



lemma sort_values_singleton: "sorts_by_key P \<Longrightarrow> sort_values P key [x] = [x]"
  using sort_values_mset [of P key "[x]"] by (simp add: mset_single_iff_right)




lemma window_cutoff_error: "window_cutoff now minutes = Inl e \<Longrightarrow> e = OverflowError"
  by (auto simp: window_cutoff_def minus_timedelta_def split: option.splits if_splits sum.splits)


section \<open>Classification boundaries\<close>

text \<open>
  Claim C4. With the thresholds good = 300 and moderate = 600 the classification is defined
  on every (finite) reading and depends on nothing but its arguments: a reading strictly
  below 300 is "Good", one at or above 300 and strictly below 600 is "Moderate", one at or
  above 600 is "Poor".
\<close>

theorem classification_boundaries:
  "(tds_v < 300 \<longrightarrow> fst (get_water_quality_status tds_v default_thresholds) = ''Good'') \<and>
   (300 \<le> tds_v \<and> tds_v < 600 \<longrightarrow>
      fst (get_water_quality_status tds_v default_thresholds) = ''Moderate'') \<and>
   (600 \<le> tds_v \<longrightarrow> fst (get_water_quality_status tds_v default_thresholds) = ''Poor'')"
  by (simp add: get_water_quality_status_def default_thresholds_def)

theorem classification_boundaries_witness:
  "fst (get_water_quality_status 299.9 default_thresholds) = ''Good'' \<and>
   fst (get_water_quality_status 300.0 default_thresholds) = ''Moderate'' \<and>
   fst (get_water_quality_status 599.9 default_thresholds) = ''Moderate'' \<and>
   fst (get_water_quality_status 600.0 default_thresholds) = ''Poor''"
  using classification_boundaries [of "299.9"] classification_boundaries [of "300.0"]
    classification_boundaries [of "599.9"] classification_boundaries [of "600.0"]
  by simp

section \<open>Appending and reading back\<close>

lemmas query_eval = last_n_readings_def window_cutoff_def range_query_def matching_def
  range_conditions_def order_by_desc_def sql_limit_def set_timestamp_def stored_def

lemma isoformat_now0: "isoformat now0 = ''2025-06-01T12:00:00''"
  by code_simp

lemma parse_now0: "to_datetime_iso [''2025-06-01T12:00:00''] = Some [now0]"
  by code_simp

lemma append_d1:
  "append_reading now0 now0 (Some ''d1'') (Some (Finite 250.0)) None None None init_database
     = Inr db_d1"
  by (simp add: append_reading_def init_database_def db_d1_def stored_def isoformat_now0)

text \<open>
  Claim C8. On the empty store, appending a reading of device \<open>d1\<close> with tds 250.0 and
  then querying with no window and no device filter (and the default limit) returns exactly
  one row, with that device id and that tds. It holds for every device id and every value
  that is not NaN, and for every timestamp that \<^verbatim>\<open>pd.to_datetime\<close> parses, as it does
  the one the clock gives.
\<close>

theorem append_read_round_trip:
  assumes "sorts_by_key P" and "v \<noteq> NaN"
    and "to_datetime P [case ts of None \<Rightarrow> isoformat t | Some s \<Rightarrow> s] = Some [d]"
  shows "\<exists>db'. append_reading t t' (Some dev) (Some v) volt ts ip init_database = Inr db' \<and>
           (\<exists>rows. last_n_readings P now None 1000 None db' = Inr rows \<and>
              map (\<lambda>r. (device_id r, tds r)) rows = [(dev, v)])"
  using assms
  by (simp add: last_n_readings_def window_cutoff_def range_query_def matching_def
      range_conditions_def order_by_desc_def sql_limit_def append_reading_def init_database_def
      sort_values_singleton set_timestamp_def)

theorem append_read_round_trip_witness:
  "append_reading now0 now0 (Some ''d1'') (Some (Finite 250.0)) None None None init_database
     = Inr db_d1 \<and>
   (\<exists>rows. last_n_readings pandas_stable now0 None 1000 None db_d1 = Inr rows \<and>
      map (\<lambda>r. (device_id r, tds r)) rows = [(''d1'', Finite 250.0)])"
proof -
  have n: "Finite 250.0 \<noteq> NaN" by simp
  have p: "to_datetime pandas_stable [case None of None \<Rightarrow> isoformat now0 | Some s \<Rightarrow> s] = Some [now0]"
    by (simp add: pandas_stable_def isoformat_now0 parse_now0)
  from append_read_round_trip [OF sorts_by_key_stable n p, where t' = now0 and dev = "''d1''"
      and volt = None and ip = None and now = now0]
  obtain db' rows where
    a: "append_reading now0 now0 (Some ''d1'') (Some (Finite 250.0)) None None None init_database
          = Inr db'"
    and r: "last_n_readings pandas_stable now0 None 1000 None db' = Inr rows"
      "map (\<lambda>r. (device_id r, tds r)) rows = [(''d1'', Finite 250.0)]"
    by auto
  from a have "db' = db_d1" unfolding append_d1 by simp
  with r show ?thesis using append_d1 by auto
qed

section \<open>Export\<close>

lemma matching_absent_device:
  "d \<noteq> [] \<Longrightarrow> \<forall>r\<in>set (readings db). device_id r \<noteq> d \<Longrightarrow> matching c (Some d) db = []"
  by (auto simp: matching_def range_conditions_def filter_empty_conv split: option.splits)

lemma range_query_absent_device:
  "d \<noteq> [] \<Longrightarrow> \<forall>r\<in>set (readings db). device_id r \<noteq> d \<Longrightarrow>
   range_query c limit (Some d) db = []"
  by (simp add: range_query_def matching_absent_device order_by_desc_def sql_limit_def)

lemma last_n_readings_absent_device:
  "d \<noteq> [] \<Longrightarrow> \<forall>r\<in>set (readings db). device_id r \<noteq> d \<Longrightarrow>
   last_n_readings P now minutes limit (Some d) db =
     (case window_cutoff now minutes of Inl e \<Rightarrow> Inl e | Inr c \<Rightarrow> Inr [])"
  by (simp add: last_n_readings_def range_query_absent_device split: sum.splits)

text \<open>
  Claim C7. When the range query behind an export is empty, \<open>export_csv\<close> returns \<open>None\<close>
  and changes neither the files nor the store; this is so for a (non-empty) device id no
  stored reading carries, unless the window of the export is so long that computing its
  cutoff raises. A file the call did write holds at least one row.
\<close>

theorem export_empty_is_noop:
  "(last_n_readings P now (window_minutes days) 100000 dev (store w) = Inr [] \<longrightarrow>
      export_csv P now path dev days w = Inr (w, None)) \<and>
   (d \<noteq> [] \<and> (\<forall>r\<in>set (readings (store w)). device_id r \<noteq> d) \<longrightarrow>
      export_csv P now path (Some d) days w =
        (case window_cutoff now (window_minutes days) of
           Inl e \<Rightarrow> Inl OverflowError
         | Inr c \<Rightarrow> Inr (w, None))) \<and>
   (\<forall>w' res p rows. export_csv P now path dev days w = Inr (w', res) \<and>
      files w' p = Some rows \<and> files w p \<noteq> Some rows \<longrightarrow> rows \<noteq> [])"
proof -
  have a: "export_csv P now path dev days w = Inr (w, None)"
    if "last_n_readings P now (window_minutes days) 100000 dev (store w) = Inr []"
    using that by (simp add: export_csv_def)
  have b: "export_csv P now path (Some d) days w =
        (case window_cutoff now (window_minutes days) of
           Inl e \<Rightarrow> Inl OverflowError
         | Inr c \<Rightarrow> Inr (w, None))"
    if "d \<noteq> []" and "\<forall>r\<in>set (readings (store w)). device_id r \<noteq> d"
    using that window_cutoff_error [of now "window_minutes days"]
    by (auto simp: export_csv_def last_n_readings_absent_device split: sum.splits)
  have c: "rows \<noteq> []"
    if "export_csv P now path dev days w = Inr (w', res)" and "files w' p = Some rows"
      and "files w p \<noteq> Some rows" for w' res p rows
    using that by (auto simp: export_csv_def Let_def split: sum.splits if_splits)
  from a b c show ?thesis by blast
qed

theorem export_empty_is_noop_witness:
  "export_csv pandas_stable now0 ''data/tds_export.csv'' (Some ''d2'') None
     \<lparr>store = db_d1, files = Map.empty\<rparr> = Inr (\<lparr>store = db_d1, files = Map.empty\<rparr>, None) \<and>
   (\<exists>w'. export_csv pandas_stable now0 ''data/tds_export.csv'' (Some ''d1'') None
     \<lparr>store = db_d1, files = Map.empty\<rparr> = Inr (w', Some ''data/tds_export.csv''))"
proof -
  have a: "''d2'' \<noteq> [] \<and> (\<forall>r\<in>set (readings (store \<lparr>store = db_d1, files = Map.empty\<rparr>)). device_id r \<noteq> ''d2'')"
    by (simp add: db_d1_def stored_def)
  have c: "window_cutoff now0 (window_minutes None) = Inr None"
    by (simp add: window_cutoff_def window_minutes_def)
  have b: "\<exists>w'. export_csv pandas_stable now0 ''data/tds_export.csv'' (Some ''d1'') None
     \<lparr>store = db_d1, files = Map.empty\<rparr> = Inr (w', Some ''data/tds_export.csv'')"
    by (simp add: export_csv_def window_minutes_def db_d1_def query_eval pandas_stable_def parse_now0)
  from export_empty_is_noop [where d = "''d2''" and w = "\<lparr>store = db_d1, files = Map.empty\<rparr>"
      and now = now0 and days = None and P = pandas_stable and path = "''data/tds_export.csv''"]
    a c b
  show ?thesis by simp
qed


section \<open>A window of zero minutes\<close>






section \<open>Pruning\<close>




lemma instant_space_stamp: "instant_of ''2025-05-02 13:00:00'' = Some 63881787600000000"
  by code_simp




section \<open>Validation of ingested readings\<close>

text \<open>
  Claim C3, amended. The checks are those of the HTTP handler \<open>receive_tds\<close>: a request
  whose device id is missing or empty, whose tds is missing, or whose tds is something
  \<^verbatim>\<open>float\<close> rejects or turns into NaN, is answered with an HTTP error and leaves the
  store as it was. \<open>append_reading\<close> itself rejects a call only through the table's
  \<open>NOT NULL\<close> constraints, when the device id or the tds is \<open>None\<close> or the tds is NaN;
  any other call adds a row, an empty device id included.
\<close>

theorem receive_tds_rejects_invalid:
  "(p_device_id p = None \<or> p_device_id p = Some [] \<or> p_tds p = TdsMissing \<or> p_tds p = TdsOther \<or>
    p_tds p = TdsNumber NaN \<or>
    (\<exists>s. p_tds p = TdsText s \<and> (float_of_text s = None \<or> float_of_text s = Some NaN)) \<longrightarrow>
      snd (receive_tds float_of_text host now now' p db) = db \<and>
      (\<exists>code detail. fst (receive_tds float_of_text host now now' p db) = HTTPException code detail \<and>
         (code = 400 \<or> code = 500))) \<and>
   (dev = None \<or> v = None \<or> v = Some NaN \<longrightarrow>
      append_reading t t' dev v volt ts ip db = Inl IntegrityError) \<and>
   (x \<noteq> NaN \<longrightarrow>
      (\<exists>db'. append_reading t t' (Some d) (Some x) volt ts ip db = Inr db' \<and>
         map device_id (readings db') = map device_id (readings db) @ [d]))"
  by (auto simp: receive_tds_def store_and_answer_def Let_def append_reading_def
      split: option.splits tds_field.splits)

theorem receive_tds_rejects_invalid_witness:
  "receive_tds float_of_text0 ''192.168.1.42'' now0 now0 (payload0\<lparr>p_device_id := Some []\<rparr>) db_d1
     = (HTTPException 400 ''Missing device_id'', db_d1) \<and>
   receive_tds float_of_text0 ''192.168.1.42'' now0 now0 (payload0\<lparr>p_tds := TdsText ''abc''\<rparr>) db_d1
     = (HTTPException 400 ''Invalid tds value (must be numeric)'', db_d1) \<and>
   receive_tds float_of_text0 ''192.168.1.42'' now0 now0 (payload0\<lparr>p_tds := TdsText ''nan''\<rparr>) db_d1
     = (HTTPException 500 ''Internal server error'', db_d1) \<and>
   snd (receive_tds float_of_text0 ''192.168.1.42'' now0 now0 (payload0\<lparr>p_tds := TdsMissing\<rparr>) db_d1) = db_d1 \<and>
   fst (receive_tds float_of_text0 ''192.168.1.42'' now0 now0 payload0 db_d1) = JSONResponse 200 \<and>
   length (readings (snd (receive_tds float_of_text0 ''192.168.1.42'' now0 now0 payload0 db_d1))) = 2 \<and>
   append_reading now0 now0 None (Some (Finite 1)) None None None db_d1 = Inl IntegrityError"
  using receive_tds_rejects_invalid [where p = "payload0\<lparr>p_tds := TdsMissing\<rparr>"
      and float_of_text = float_of_text0 and host = "''192.168.1.42''" and now = now0
      and now' = now0 and db = db_d1 and dev = None and v = "Some (Finite 1)" and t = now0
      and t' = now0 and volt = None and ts = None and ip = None and x = "Finite 1"]
  by (simp add: receive_tds_def store_and_answer_def payload0_def float_of_text0_def db_d1_def
      append_reading_def)

text \<open>
  Claim C3 as the specification words it has the append operation reject an empty device
  id and store nothing; \<open>append_reading\<close> with an empty device id stores the reading.
\<close>

theorem append_stores_unvalidated_counterexample:
  "append_reading now0 now0 (Some []) (Some (Finite 1)) None None None init_database =
     Inr \<lparr>readings = [\<lparr>rid = 1, device_id = [], device_ip = None, tds = Finite 1,
                        voltage = None, timestamp = ''2025-06-01T12:00:00'',
                        created_at = ''2025-06-01T12:00:00''\<rparr>],
          seq = 1\<rparr>"
  by (simp add: append_reading_def init_database_def isoformat_now0)

section \<open>The row cap\<close>



lemma parse_eleven: "to_datetime_iso [''2025-06-01T11:00:00''] = Some [63884372400000000]"
  by code_simp







section \<open>The time window of a range query\<close>










section \<open>Well-formed states are kept\<close>

lemma wf_db_init: "wf_db init_database"
  by (simp add: wf_db_def init_database_def)

lemma wf_db_append:
  assumes "wf_db db" and "append_reading now now' dev tds_v volt ts ip db = Inr db'"
  shows "wf_db db'"
proof -
  have b: "\<forall>r\<in>set (readings db). rid r < seq db + 1 \<and> rid r \<le> seq db + 1"
    using assms(1) by (auto simp: wf_db_def list_all_iff)
  from assms(2) obtain row where
    d: "db' = \<lparr>readings = readings db @ [row], seq = seq db + 1\<rparr>" and r: "rid row = seq db + 1"
    by (auto simp: append_reading_def Let_def split: option.splits if_splits)
  show ?thesis
    using assms(1) b by (simp add: d r wf_db_def sorted_wrt_append list_all_iff)
qed

lemma wf_db_prune:
  "wf_db db \<Longrightarrow> clear_old_readings now days db = Inr (db', n) \<Longrightarrow> wf_db db'"
  by (auto simp: wf_db_def clear_old_readings_def Let_def sorted_wrt_map sorted_wrt_filter
      list_all_iff split: sum.splits)

lemma wf_db_store_and_answer:
  "wf_db db \<Longrightarrow> wf_db (snd (store_and_answer now now' dev x volt ts ip db))"
  by (auto simp: store_and_answer_def wf_db_append split: sum.splits)

lemma wf_db_receive: "wf_db db \<Longrightarrow> wf_db (snd (receive_tds f host now now' p db))"
  by (auto simp: receive_tds_def Let_def wf_db_store_and_answer
      split: option.splits tds_field.splits)

section \<open>The latest reading of each device\<close>

lemma max_row_mem: "max_row b rs \<in> set (b # rs)"
  unfolding max_row_def
  by (induction rs arbitrary: b) (auto simp: max_step_def)

lemma max_row_props:
  "sorted_wrt (<) (map rid (b # rs)) \<Longrightarrow>
   (\<forall>x\<in>set (b # rs). timestamp x \<le> timestamp (max_row b rs) \<and>
      (timestamp x = timestamp (max_row b rs) \<longrightarrow> rid (max_row b rs) \<le> rid x))"
  unfolding max_row_def
proof (induction rs arbitrary: b)
  case Nil
  then show ?case by simp
next
  case (Cons x xs)
  let ?c = "foldl max_step (max_step b x) xs"
  show ?case
  proof (cases "timestamp b < timestamp x")
    case True
    then have s: "max_step b x = x" by (simp add: max_step_def)
    have "sorted_wrt (<) (map rid (x # xs))" using Cons.prems by simp
    from Cons.IH [OF this] have ih: "\<forall>y\<in>set (x # xs). timestamp y \<le> timestamp (foldl max_step x xs) \<and>
      (timestamp y = timestamp (foldl max_step x xs) \<longrightarrow> rid (foldl max_step x xs) \<le> rid y)" .
    then have "timestamp x \<le> timestamp (foldl max_step x xs)" by simp
    with True have "timestamp b < timestamp (foldl max_step x xs)" by simp
    with ih show ?thesis by (auto simp: s)
  next
    case False
    then have s: "max_step b x = b" by (simp add: max_step_def)
    have sb: "sorted_wrt (<) (map rid (b # xs))" using Cons.prems by simp
    from Cons.IH [OF this] have ih: "\<forall>y\<in>set (b # xs). timestamp y \<le> timestamp (foldl max_step b xs) \<and>
      (timestamp y = timestamp (foldl max_step b xs) \<longrightarrow> rid (foldl max_step b xs) \<le> rid y)" .
    have mem: "foldl max_step b xs \<in> set (b # xs)"
      using max_row_mem [of b xs] by (simp add: max_row_def)
    have bx: "rid b < rid x" using Cons.prems by simp
    have lb: "rid b \<le> rid (foldl max_step b xs)"
      using mem Cons.prems by auto
    have tb: "timestamp b \<le> timestamp (foldl max_step b xs)" using ih by simp
    have tx: "timestamp x \<le> timestamp (foldl max_step b xs)" using False tb by simp
    have "rid (foldl max_step b xs) \<le> rid x" if "timestamp x = timestamp (foldl max_step b xs)"
    proof -
      have "timestamp b = timestamp (foldl max_step b xs)" using that False tb by simp
      then have "rid (foldl max_step b xs) \<le> rid b" using ih by simp
      then show ?thesis using bx by simp
    qed
    with ih tx show ?thesis by (auto simp: s)
  qed
qed

lemma latest_of_group_device:
  assumes "d \<in> device_id ` set rows"
  shows "\<exists>r rs. filter (\<lambda>r. device_id r = d) rows = r # rs \<and>
           latest_of_group (filter (\<lambda>r. device_id r = d) rows) = [latest_row (max_row r rs)] \<and>
           device_id (max_row r rs) = d"
proof -
  have "filter (\<lambda>r. device_id r = d) rows \<noteq> []"
    using assms by (auto simp: filter_empty_conv)
  then obtain r rs where e: "filter (\<lambda>r. device_id r = d) rows = r # rs"
    by (cases "filter (\<lambda>r. device_id r = d) rows") auto
  have "max_row r rs \<in> set (filter (\<lambda>r. device_id r = d) rows)"
    using max_row_mem [of r rs] e by simp
  then have "device_id (max_row r rs) = d" by simp
  then show ?thesis using e by (simp add: latest_of_group_def)
qed

lemma group_rows_device_ids:
  "set ds \<subseteq> device_id ` set rows \<Longrightarrow>
   map l_device_id (concat (map (\<lambda>d. latest_of_group (filter (\<lambda>r. device_id r = d) rows)) ds)) = ds"
proof (induction ds)
  case Nil
  then show ?case by simp
next
  case (Cons d ds)
  then have "d \<in> device_id ` set rows" by simp
  from latest_of_group_device [OF this] obtain r rs where
    "latest_of_group (filter (\<lambda>r. device_id r = d) rows) = [latest_row (max_row r rs)]"
    "device_id (max_row r rs) = d" by blast
  then show ?case using Cons by (simp add: latest_row_def)
qed

lemma groups_device_ids:
  "map l_device_id (concat (map latest_of_group (group_by_device rows))) =
     sort (remdups (map device_id rows))"
  using group_rows_device_ids [of "sort (remdups (map device_id rows))" rows]
  by (simp add: group_by_device_def comp_def)

lemma groups_rows:
  assumes "sorted_wrt (<) (map rid rows)"
    and "l \<in> set (concat (map latest_of_group (group_by_device rows)))"
  shows "\<exists>r\<in>set rows. l = latest_row r \<and>
           (\<forall>r'\<in>set rows. device_id r' = device_id r \<longrightarrow>
              timestamp r' \<le> timestamp r \<and> (timestamp r' = timestamp r \<longrightarrow> rid r \<le> rid r'))"
proof -
  from assms(2) obtain d where d: "d \<in> device_id ` set rows"
    and l: "l \<in> set (latest_of_group (filter (\<lambda>r. device_id r = d) rows))"
    by (auto simp: group_by_device_def)
  from latest_of_group_device [OF d] obtain r rs where
    e: "filter (\<lambda>r. device_id r = d) rows = r # rs"
    and g: "latest_of_group (filter (\<lambda>r. device_id r = d) rows) = [latest_row (max_row r rs)]"
    and dv: "device_id (max_row r rs) = d" by blast
  have "sorted_wrt (<) (map rid (filter (\<lambda>r. device_id r = d) rows))"
    using assms(1) by (simp add: sorted_wrt_map sorted_wrt_filter)
  then have "sorted_wrt (<) (map rid (r # rs))" using e by simp
  from max_row_props [OF this]
  have p: "\<forall>x\<in>set (r # rs). timestamp x \<le> timestamp (max_row r rs) \<and>
      (timestamp x = timestamp (max_row r rs) \<longrightarrow> rid (max_row r rs) \<le> rid x)" .
  have s: "set (r # rs) = {x \<in> set rows. device_id x = d}"
    using e by (metis set_filter)
  have m: "max_row r rs \<in> set rows"
    using max_row_mem [of r rs] s by auto
  have "\<forall>r'\<in>set rows. device_id r' = device_id (max_row r rs) \<longrightarrow>
              timestamp r' \<le> timestamp (max_row r rs) \<and>
              (timestamp r' = timestamp (max_row r rs) \<longrightarrow> rid (max_row r rs) \<le> rid r')"
    using p s dv by auto
  with m l g show ?thesis by auto
qed

lemma set_latest_columns:
  "length df = length ts \<Longrightarrow> length ts = length ls \<Longrightarrow>
   map l_timestamp (map (\<lambda>(l, t, s). set_latest l t s) (zip df (zip ts ls))) = ts \<and>
   map last_seen (map (\<lambda>(l, t, s). set_latest l t s) (zip df (zip ts ls))) = ls \<and>
   map latest_columns (map (\<lambda>(l, t, s). set_latest l t s) (zip df (zip ts ls))) =
     map latest_columns df"
proof (induction df ts ls rule: list_induct3)
  case Nil
  then show ?case by simp
next
  case (Cons x xs y ys z zs)
  then show ?case by (simp add: set_latest_def latest_columns_def)
qed

lemma get_latest_by_device_cases:
  assumes "parses_columns P"
    and "map l_timestamp (latest_query db) = map last_seen (latest_query db)"
  shows "latest_query db = [] \<and> get_latest_by_device P db = Inr [] \<or>
         latest_query db \<noteq> [] \<and> to_datetime P (map last_seen (latest_query db)) = None \<and>
           get_latest_by_device P db = Inl ValueError \<or>
         (\<exists>ds rows. to_datetime P (map last_seen (latest_query db)) = Some ds \<and>
            get_latest_by_device P db = Inr rows \<and>
            map l_timestamp rows = ds \<and> map last_seen rows = ds \<and>
            map latest_columns rows = map latest_columns (latest_query db))"
proof (cases "latest_query db = []")
  case True
  then show ?thesis by (simp add: get_latest_by_device_def)
next
  case False
  show ?thesis
  proof (cases "to_datetime P (map last_seen (latest_query db))")
    case None
    then show ?thesis
      using False unfolding get_latest_by_device_def Let_def assms(2) by simp
  next
    case (Some ds)
    then have l: "length (latest_query db) = length ds"
      using assms(1) unfolding parses_columns_def by fastforce
    have "get_latest_by_device P db =
        Inr (map (\<lambda>(l, t, s). set_latest l t s) (zip (latest_query db) (zip ds ds)))"
      using False Some unfolding get_latest_by_device_def Let_def assms(2) by simp
    then show ?thesis using Some set_latest_columns [OF l refl] by simp
  qed
qed

lemmas latest_eval = get_latest_by_device_def latest_query_def group_by_device_def
  latest_of_group_def latest_row_def max_row_def max_step_def set_latest_def
  order_by_desc_def stored_def

lemma wf_db_two_devices: "wf_db db_two_devices"
  by (simp add: wf_db_def db_two_devices_def stored_def)

lemma parse_two_devices:
  "to_datetime_iso [''2025-06-01T11:50:00'', ''2025-06-01T11:30:00'']
     = Some [63884375400000000, 63884374200000000]"
  by code_simp

lemma parse_soon: "to_datetime_iso [''soon''] = None"
  by code_simp

text \<open>
  Claim C2, amended. For every store \<open>get_latest_by_device\<close> selects exactly one row for
  each device id of the store, ordered descending by the greatest timestamp text of the
  device. The row carries the columns of a reading of that device with that greatest
  timestamp, and where several readings of the device share it, those of the one with the
  lowest id, the first one inserted: a later row replaces the one held only when its
  timestamp is strictly greater. The function returns these rows, their two timestamp
  columns parsed, when \<^verbatim>\<open>pd.to_datetime\<close> takes the column of the greatest timestamps,
  and raises ValueError when it does not.
\<close>

theorem latest_per_device:
  assumes "wf_db db" and "parses_columns P"
  shows "distinct (map l_device_id (latest_query db)) \<and>
         set (map l_device_id (latest_query db)) = device_id ` set (readings db) \<and>
         sorted (rev (map last_seen (latest_query db))) \<and>
         (\<forall>l\<in>set (latest_query db). \<exists>r\<in>set (readings db). l = latest_row r \<and>
            (\<forall>r'\<in>set (readings db). device_id r' = device_id r \<longrightarrow>
               timestamp r' \<le> timestamp r \<and> (timestamp r' = timestamp r \<longrightarrow> rid r \<le> rid r'))) \<and>
         (readings db = [] \<and> get_latest_by_device P db = Inr [] \<or>
          readings db \<noteq> [] \<and> to_datetime P (map last_seen (latest_query db)) = None \<and>
            get_latest_by_device P db = Inl ValueError \<or>
          (\<exists>ds rows. to_datetime P (map last_seen (latest_query db)) = Some ds \<and>
             get_latest_by_device P db = Inr rows \<and>
             map l_timestamp rows = ds \<and> map last_seen rows = ds \<and>
             map latest_columns rows = map latest_columns (latest_query db)))"
proof -
  let ?G = "concat (map latest_of_group (group_by_device (readings db)))"
  have ms: "mset (map l_device_id (latest_query db)) = mset (sort (remdups (map device_id (readings db))))"
  proof -
    have "mset (map l_device_id (latest_query db)) = image_mset l_device_id (mset ?G)"
      unfolding latest_query_def by (simp add: mset_order_by_desc)
    also have "\<dots> = mset (map l_device_id ?G)" by simp
    finally show ?thesis by (simp only: groups_device_ids)
  qed
  have b: "distinct (map l_device_id (latest_query db))"
    using mset_eq_imp_distinct_iff [OF ms] by simp
  have c: "set (map l_device_id (latest_query db)) = device_id ` set (readings db)"
    using mset_eq_setD [OF ms] by simp
  have d: "sorted (rev (map last_seen (latest_query db)))"
    unfolding latest_query_def by (rule descending_order_by_desc)
  have s: "sorted_wrt (<) (map rid (readings db))"
    using assms(1) by (simp add: wf_db_def)
  have e: "\<forall>l\<in>set (latest_query db). \<exists>r\<in>set (readings db). l = latest_row r \<and>
            (\<forall>r'\<in>set (readings db). device_id r' = device_id r \<longrightarrow>
               timestamp r' \<le> timestamp r \<and> (timestamp r' = timestamp r \<longrightarrow> rid r \<le> rid r'))"
    unfolding latest_query_def set_order_by_desc using groups_rows [OF s] by blast
  have "\<forall>l\<in>set (latest_query db). l_timestamp l = last_seen l"
    using e by (auto simp: latest_row_def)
  then have t: "map l_timestamp (latest_query db) = map last_seen (latest_query db)"
    by simp
  have n: "latest_query db = [] \<longleftrightarrow> readings db = []"
    using c by (metis image_is_empty set_empty list.map_disc_iff)
  from get_latest_by_device_cases [OF assms(2) t] n
  have f: "readings db = [] \<and> get_latest_by_device P db = Inr [] \<or>
          readings db \<noteq> [] \<and> to_datetime P (map last_seen (latest_query db)) = None \<and>
            get_latest_by_device P db = Inl ValueError \<or>
          (\<exists>ds rows. to_datetime P (map last_seen (latest_query db)) = Some ds \<and>
             get_latest_by_device P db = Inr rows \<and>
             map l_timestamp rows = ds \<and> map last_seen rows = ds \<and>
             map latest_columns rows = map latest_columns (latest_query db))"
    by simp
  from b c d e f show ?thesis by blast
qed

theorem latest_per_device_witness:
  "map (\<lambda>r. (rid r, device_id r, timestamp r, tds r)) (readings db_two_devices) =
     [(1, ''d1'', ''2025-06-01T11:00:00'', Finite 110), (2, ''d1'', ''2025-06-01T11:50:00'', Finite 120),
      (3, ''d2'', ''2025-06-01T11:30:00'', Finite 300)] \<and>
   (\<exists>rows. get_latest_by_device pandas_stable db_two_devices = Inr rows \<and>
      map (\<lambda>l. (l_device_id l, l_tds l, last_seen l)) rows =
        [(''d1'', Finite 120, 63884375400000000), (''d2'', Finite 300, 63884374200000000)]) \<and>
   distinct (map l_device_id (latest_query db_two_devices))"
proof -
  have a: "map (\<lambda>r. (rid r, device_id r, timestamp r, tds r)) (readings db_two_devices) =
     [(1, ''d1'', ''2025-06-01T11:00:00'', Finite 110), (2, ''d1'', ''2025-06-01T11:50:00'', Finite 120),
      (3, ''d2'', ''2025-06-01T11:30:00'', Finite 300)]"
    by (simp add: db_two_devices_def stored_def)
  have b: "\<exists>rows. get_latest_by_device pandas_stable db_two_devices = Inr rows \<and>
      map (\<lambda>l. (l_device_id l, l_tds l, last_seen l)) rows =
        [(''d1'', Finite 120, 63884375400000000), (''d2'', Finite 300, 63884374200000000)]"
    by (simp add: db_two_devices_def latest_eval pandas_stable_def parse_two_devices)
  from latest_per_device [OF wf_db_two_devices parses_columns_stable] a b
  show ?thesis by blast
qed

text \<open>
  Claim C2 as the specification words it breaks ties by the highest id and has a result
  for every non-empty store. Of two readings of \<open>d1\<close> with one timestamp, the first with
  tds 100 and the second with tds 200, the row of \<open>d1\<close> reports 100; and on a store whose
  one reading is stamped \<open>soon\<close> the function raises ValueError.
\<close>

theorem latest_tie_counterexample:
  "map (\<lambda>r. (rid r, device_id r, timestamp r, tds r)) (readings db_tie) =
     [(1, ''d1'', ''2025-06-01T11:00:00'', Finite 100),
      (2, ''d1'', ''2025-06-01T11:00:00'', Finite 200)] \<and>
   map_sum id (map (\<lambda>l. (l_device_id l, l_tds l))) (get_latest_by_device pandas_quicksort db_tie) =
     Inr [(''d1'', Finite 100)] \<and>
   get_latest_by_device pandas_quicksort db_bad_stamp = Inl ValueError"
  by (simp add: db_tie_def db_bad_stamp_def latest_eval pandas_quicksort_def parse_eleven
      parse_soon)

section \<open>Order of the rows of a range query\<close>




end
